theory Spec2Isabelle
  imports Complex_Main "HOL-Library.AList" "HOL-Library.Log_Nat"
begin

section \<open>Numbers\<close>

text \<open>
  Prices, equity and returns are Python floats in the source. They are modelled as
  real numbers, without infinities or NaN, and their arithmetic is exact except where
  \<open>fl64\<close> below is written. Python integers are \<open>int\<close>.
\<close>

text \<open>
  Python's \<open>round(x, ndigits)\<close> on a float picks the nearest multiple of
  \<open>10 ^ -ndigits\<close>, a tie going to the even multiple.
\<close>

definition round_half_even :: "real \<Rightarrow> int" where
  "round_half_even x =
     (let f = \<lfloor>x\<rfloor>; r = x - of_int f
      in if r < 1 / 2 then f else if 1 / 2 < r then f + 1 else if even f then f else f + 1)"

definition py_round :: "real \<Rightarrow> nat \<Rightarrow> real" where
  "py_round x ndigits = of_int (round_half_even (x * 10 ^ ndigits)) / 10 ^ ndigits"

text \<open>
  The trigger level of the trailing stop, which decides between its two results, is
  modelled as the double the machine computes. \<open>fl64 x\<close> is the double nearest to the
  real \<open>x\<close>, a tie going to the even significand: with \<open>2 ^ e \<le> \<bar>x\<bar> < 2 ^ (e + 1)\<close> it is the
  nearest multiple of \<open>2 ^ (e - 52)\<close>, the exponent held at \<open>- 1022\<close> for the subnormal
  numbers. Each of \<open>+\<close> and \<open>*\<close> on doubles returns \<open>fl64\<close> of the exact result, and a
  decimal literal denotes \<open>fl64\<close> of its value. Overflow to infinity (from \<open>2 ^ 1024\<close>
  on) is not modelled.
\<close>

definition bin_exp :: "real \<Rightarrow> int" where
  "bin_exp x = (if 1 \<le> x then bitlen \<lfloor>x\<rfloor> - 1 else - bitlen (\<lceil>1 / x\<rceil> - 1))"

definition fl64 :: "real \<Rightarrow> real" where
  "fl64 x =
     (if x = 0 then 0
      else
        let e = max (bin_exp \<bar>x\<bar>) (- 1022);
            u = 2 powi (e - 52)
        in of_int (round_half_even (x / u)) * u)"

section \<open>config.py: the constants the core uses\<close>

definition EMA_FAST :: nat where "EMA_FAST = 21"
definition EMA_SLOW :: nat where "EMA_SLOW = 50"
definition PULLBACK_TOLERANCE_PCT :: real where "PULLBACK_TOLERANCE_PCT = 3 / 1000"
definition MIN_BAR_DOLLAR_VOL :: real where "MIN_BAR_DOLLAR_VOL = 2000000"
definition SYMBOL_COOLDOWN_MIN :: int where "SYMBOL_COOLDOWN_MIN = 60"
definition STOP_LOSS_PCT :: real where "STOP_LOSS_PCT = 7 / 1000"
definition TRAIL_TRIGGER_PCT :: real where "TRAIL_TRIGGER_PCT = 1 / 100"
definition TRAIL_OFFSET_PCT :: real where "TRAIL_OFFSET_PCT = 12 / 1000"
definition RISK_PER_TRADE_PCT :: real where "RISK_PER_TRADE_PCT = 75 / 10000"
definition MAX_POSITION_PCT :: real where "MAX_POSITION_PCT = 1 / 10"
definition MAX_TOTAL_EXPOSURE_PCT :: real where "MAX_TOTAL_EXPOSURE_PCT = 1 / 2"

section \<open>risk.py\<close>

definition calculate_stop_price :: "real \<Rightarrow> real" where
  "calculate_stop_price entry_price = py_round (entry_price * (1 - STOP_LOSS_PCT)) 4"

definition calculate_position_size :: "real \<Rightarrow> real \<Rightarrow> bool \<Rightarrow> int" where
  "calculate_position_size account_equity entry_price aggressive =
     (if account_equity \<le> 0 \<or> entry_price \<le> 0 then 0
      else
        let risk_pct = (if \<not> aggressive then RISK_PER_TRADE_PCT
                        else max RISK_PER_TRADE_PCT (1 / 100));
            risk_capital = account_equity * risk_pct;
            stop_distance = entry_price * STOP_LOSS_PCT
        in if stop_distance \<le> 0 then 0
           else
             let qty = \<lfloor>risk_capital / stop_distance\<rfloor>;
                 position_value = of_int qty * entry_price;
                 max_value = account_equity * MAX_POSITION_PCT;
                 qty' = (if position_value > max_value \<and> entry_price > 0
                         then \<lfloor>max_value / entry_price\<rfloor> else qty)
             in max qty' 0)"

text \<open>
  The float \<open>entry_price * (1 + TRAIL_TRIGGER_PCT)\<close> of line 48, as the machine computes
  it: the literal 0.01, the sum and the product are each rounded to a double.
\<close>

definition trigger_level :: "real \<Rightarrow> real" where
  "trigger_level entry_price = fl64 (entry_price * fl64 (1 + fl64 TRAIL_TRIGGER_PCT))"

text \<open>
  The test of line 48 compares with that double. The value returned at line 51 is
  idealised as in \<open>calculate_stop_price\<close>: the exact product, rounded to 4 decimal places.
\<close>

definition trailing_stop_price :: "real \<Rightarrow> real \<Rightarrow> real option" where
  "trailing_stop_price entry_price highest_price =
     (if highest_price \<le> 0 \<or> entry_price \<le> 0 then None
      else if highest_price < trigger_level entry_price then None
      else Some (py_round (highest_price * (1 - TRAIL_OFFSET_PCT)) 4))"

text \<open>
  The stop price as section 4.1 of the specification words it: a price for a positive
  entry, no price otherwise.
\<close>

definition stop_price_spec :: "real \<Rightarrow> real option" where
  "stop_price_spec entry =
     (if 0 < entry then Some (py_round (entry * (1 - STOP_LOSS_PCT)) 4) else None)"

section \<open>Exceptions\<close>

text \<open>The Python exceptions that the modelled code can raise.\<close>

datatype error =
    OSError
  | JSONDecodeError
  | TypeError
  | IndexError
  | UnboundLocalError
  | APIError

section \<open>state.py\<close>

text \<open>
  A point in time is an \<open>int\<close>, the microseconds since an epoch (the resolution of
  Python's \<open>datetime\<close>). A value stored under \<open>last_loss_at\<close> is a string;
  \<open>Iso t\<close> stands for one that \<open>datetime.fromisoformat\<close> parses to the instant \<open>t\<close>,
  \<open>Garbled\<close> for one it rejects. A trading day is the ISO string of its date.
\<close>

datatype stamp = Iso int | Garbled

text \<open>
  A value of the \<open>traded_symbols\<close> dictionary: \<open>record_symbol_trade\<close> stores the
  boolean \<open>True\<close>, \<open>update_metrics\<close> stores a dictionary \<open>{"last_loss_at": ...}\<close>.
\<close>

datatype ledger_entry = Marker bool | Info "(string \<times> stamp) list"

type_synonym ledger = "(string \<times> ledger_entry) list"

record metrics =
  total_trades :: int
  wins :: int
  losses :: int
  gross_profit :: real
  gross_loss :: real
  pnl_by_symbol :: "(string \<times> real) list"
  max_equity :: "real option"
  max_drawdown :: real

text \<open>
  The dictionary \<open>self.state\<close>. Its two dictionary-valued entries are references into
  the store: Python dictionaries are objects, and \<open>DEFAULT_STATE.copy()\<close> is a shallow
  copy, so a state can share them with \<open>DEFAULT_STATE\<close>.
\<close>

record bot_state =
  trading_day :: "string option"
  start_equity :: "real option"
  trades_executed :: int
  trading_halted :: bool
  traded_symbols :: nat
  metrics_ref :: nat

text \<open>
  What \<open>json.load\<close> finds in the state file. Each key of an object may be missing.
  A parsed value that is no object is \<open>Inert\<close> when the membership tests
  \<open>key in stored\<close> are all false (a list or a string without the key names) and
  \<open>Ill_Typed\<close> when a membership test or the subscript raises \<open>TypeError\<close>
  (a number, a boolean, null, a list or string holding a key name).
  Stored values are taken to have the types \<open>save\<close> writes.
\<close>

record stored =
  s_trading_day :: "string option option"
  s_start_equity :: "real option option"
  s_trades_executed :: "int option"
  s_trading_halted :: "bool option"
  s_traded_symbols :: "ledger option"
  s_metrics :: "metrics option"

datatype parsed = Object stored | Inert | Ill_Typed

datatype file_content = Unreadable | Malformed | Parsed parsed

text \<open>
  The world of \<open>state.py\<close>: the store of metrics dictionaries and of ledger
  dictionaries (address 0 of each holds the dictionary of \<open>DEFAULT_STATE\<close>), the next
  unused address, the dictionary \<open>self.state\<close>, the state file (\<open>None\<close> when
  \<open>os.path.exists\<close> is false), and whether \<open>open(STATE_FILE, "w")\<close> succeeds: it
  raises \<open>OSError\<close> when the path is a directory or may not be written.
\<close>

record world =
  metrics_at :: "nat \<Rightarrow> metrics"
  ledger_at :: "nat \<Rightarrow> ledger"
  fresh :: nat
  state :: bot_state
  state_file :: "file_content option"
  writable :: bool

definition zero_metrics :: metrics where
  "zero_metrics =
     \<lparr>total_trades = 0, wins = 0, losses = 0, gross_profit = 0, gross_loss = 0,
      pnl_by_symbol = [], max_equity = None, max_drawdown = 0\<rparr>"

text \<open>\<open>DEFAULT_STATE.copy()\<close>: fresh scalars, the two dictionaries shared.\<close>

definition default_copy :: bot_state where
  "default_copy =
     \<lparr>trading_day = None, start_equity = None, trades_executed = 0,
      trading_halted = False, traded_symbols = 0, metrics_ref = 0\<rparr>"

text \<open>
  The world once the module is imported, before any \<open>BotState\<close> exists, with a state
  file that can be written.
\<close>

definition module_loaded :: "file_content option \<Rightarrow> world" where
  "module_loaded f =
     \<lparr>metrics_at = (\<lambda>_. zero_metrics), ledger_at = (\<lambda>_. []), fresh = 1,
      state = default_copy, state_file = f, writable = True\<rparr>"

definition cur_metrics :: "world \<Rightarrow> metrics" where
  "cur_metrics w = metrics_at w (metrics_ref (state w))"

definition cur_ledger :: "world \<Rightarrow> ledger" where
  "cur_ledger w = ledger_at w (traded_symbols (state w))"

text \<open>
  \<open>json.dump(self.state, f)\<close>: the file receives the state with its dictionaries.
  \<open>save\<close> is the write that succeeds, and the methods that change the state are
  modelled with it, on a file that can be written. \<open>write_state\<close> is \<open>self.save()\<close>
  with both outcomes, as \<open>load\<close> calls it.
\<close>

definition snapshot :: "world \<Rightarrow> stored" where
  "snapshot w =
     \<lparr>s_trading_day = Some (trading_day (state w)),
      s_start_equity = Some (start_equity (state w)),
      s_trades_executed = Some (trades_executed (state w)),
      s_trading_halted = Some (trading_halted (state w)),
      s_traded_symbols = Some (cur_ledger w),
      s_metrics = Some (cur_metrics w)\<rparr>"

definition save :: "world \<Rightarrow> world" where
  "save w = w\<lparr>state_file := Some (Parsed (Object (snapshot w)))\<rparr>"

definition write_state :: "world \<Rightarrow> error + world" where
  "write_state w = (if writable w then Inr (save w) else Inl OSError)"

text \<open>
  The loop \<open>for key in DEFAULT_STATE: if key in stored: self.state[key] = stored[key]\<close>
  on a stored object; the dictionaries that \<open>json.load\<close> built are new objects.
\<close>

definition assign_stored :: "stored \<Rightarrow> world \<Rightarrow> world" where
  "assign_stored s w =
     (let a = fresh w;
          st1 = (case s_trading_day s of None \<Rightarrow> state w
                 | Some v \<Rightarrow> (state w)\<lparr>trading_day := v\<rparr>);
          st2 = (case s_start_equity s of None \<Rightarrow> st1 | Some v \<Rightarrow> st1\<lparr>start_equity := v\<rparr>);
          st3 = (case s_trades_executed s of None \<Rightarrow> st2
                 | Some v \<Rightarrow> st2\<lparr>trades_executed := v\<rparr>);
          st4 = (case s_trading_halted s of None \<Rightarrow> st3
                 | Some v \<Rightarrow> st3\<lparr>trading_halted := v\<rparr>);
          st5 = (case s_traded_symbols s of None \<Rightarrow> st4
                 | Some v \<Rightarrow> st4\<lparr>traded_symbols := a\<rparr>);
          st6 = (case s_metrics s of None \<Rightarrow> st5 | Some v \<Rightarrow> st5\<lparr>metrics_ref := a\<rparr>)
      in w\<lparr>ledger_at := (case s_traded_symbols s of None \<Rightarrow> ledger_at w
                          | Some v \<Rightarrow> (ledger_at w)(a := v)),
            metrics_at := (case s_metrics s of None \<Rightarrow> metrics_at w
                           | Some v \<Rightarrow> (metrics_at w)(a := v)),
            fresh := a + 1,
            state := st6\<rparr>)"

text \<open>The body of the \<open>try\<close> block of \<open>load\<close>.\<close>

definition load_try :: "file_content \<Rightarrow> world \<Rightarrow> error + world" where
  "load_try c w =
     (case c of
        Unreadable \<Rightarrow> Inl OSError
      | Malformed \<Rightarrow> Inl JSONDecodeError
      | Parsed Ill_Typed \<Rightarrow> Inl TypeError
      | Parsed Inert \<Rightarrow> Inr w
      | Parsed (Object s) \<Rightarrow> Inr (assign_stored s w))"

text \<open>
  \<open>load\<close>: the \<open>except\<close> branch replaces the state by a copy of the default, and the
  call \<open>self.save()\<close> of line 47 follows the \<open>try\<close> statement, outside it.
\<close>

definition load :: "world \<Rightarrow> error + world" where
  "load w =
     (case state_file w of
        None \<Rightarrow> write_state w
      | Some c \<Rightarrow>
          (case load_try c w of
             Inr w' \<Rightarrow> write_state w'
           | Inl e \<Rightarrow> write_state (w\<lparr>state := default_copy\<rparr>)))"

text \<open>\<open>BotState.__init__\<close>.\<close>

definition BotState_init :: "world \<Rightarrow> error + world" where
  "BotState_init w = load (w\<lparr>state := default_copy\<rparr>)"

definition reset_for_day :: "string \<Rightarrow> real \<Rightarrow> world \<Rightarrow> world" where
  "reset_for_day today start_eq w =
     (if trading_day (state w) \<noteq> Some today
      then
        let a = fresh w
        in save (w\<lparr>ledger_at := (ledger_at w)(a := []),
                   metrics_at := (metrics_at w)(a := metrics_at w 0),
                   fresh := a + 1,
                   state := (state w)\<lparr>trading_day := Some today,
                                       start_equity := Some start_eq,
                                       trades_executed := 0,
                                       trading_halted := False,
                                       traded_symbols := a,
                                       metrics_ref := a\<rparr>\<rparr>)
      else w)"

definition record_trade :: "world \<Rightarrow> world" where
  "record_trade w =
     save (w\<lparr>state := (state w)\<lparr>trades_executed := trades_executed (state w) + 1\<rparr>\<rparr>)"

definition record_symbol_trade :: "string \<Rightarrow> world \<Rightarrow> world" where
  "record_symbol_trade symbol w =
     (let t = traded_symbols (state w)
      in save (w\<lparr>ledger_at := (ledger_at w)
                    (t := AList.update symbol (Marker True) (ledger_at w t))\<rparr>))"

text \<open>\<open>bool(traded.get(symbol, False))\<close>: a non-empty dictionary is true.\<close>

definition has_traded_symbol :: "string \<Rightarrow> world \<Rightarrow> bool" where
  "has_traded_symbol symbol w =
     (case map_of (cur_ledger w) symbol of
        None \<Rightarrow> False
      | Some (Marker b) \<Rightarrow> b
      | Some (Info d) \<Rightarrow> d \<noteq> [])"

definition halt_trading :: "world \<Rightarrow> world" where
  "halt_trading w = save (w\<lparr>state := (state w)\<lparr>trading_halted := True\<rparr>\<rparr>)"

text \<open>
  \<open>update_metrics\<close> reads the clock when it records a loss; the instant it reads is the
  argument \<open>now\<close>. The dictionaries are changed in place, at their addresses.
\<close>

definition update_metrics :: "string \<Rightarrow> real \<Rightarrow> real \<Rightarrow> real \<Rightarrow> int \<Rightarrow> world \<Rightarrow> world" where
  "update_metrics symbol pnl_dollars entry exit now w =
     (let a = metrics_ref (state w);
          m = metrics_at w a;
          m1 = m\<lparr>total_trades := total_trades m + 1\<rparr>;
          m2 = (if pnl_dollars \<ge> 0
                then m1\<lparr>wins := wins m1 + 1, gross_profit := gross_profit m1 + pnl_dollars\<rparr>
                else m1\<lparr>losses := losses m1 + 1, gross_loss := gross_loss m1 + pnl_dollars\<rparr>);
          by_symbol = pnl_by_symbol m2;
          m3 = m2\<lparr>pnl_by_symbol :=
                 AList.update symbol
                   ((case map_of by_symbol symbol of None \<Rightarrow> 0 | Some v \<Rightarrow> v) + pnl_dollars)
                   by_symbol\<rparr>;
          w1 = save (w\<lparr>metrics_at := (metrics_at w)(a := m3)\<rparr>)
      in if pnl_dollars < 0
         then
           let t = traded_symbols (state w1)
           in save (w1\<lparr>ledger_at := (ledger_at w1)
                         (t := AList.update symbol (Info [(''last_loss_at'', Iso now)])
                                 (ledger_at w1 t))\<rparr>)
         else w1)"

text \<open>What \<open>update_drawdown\<close> does to the metrics dictionary \<open>m\<close>.\<close>

definition drawdown_step :: "real \<Rightarrow> metrics \<Rightarrow> metrics" where
  "drawdown_step equity m =
     (let m1 = (case max_equity m of
                  None \<Rightarrow> m\<lparr>max_equity := Some equity\<rparr>
                | Some me \<Rightarrow> if equity > me then m\<lparr>max_equity := Some equity\<rparr> else m)
      in case max_equity m1 of
           None \<Rightarrow> m1
         | Some me \<Rightarrow>
             if me \<noteq> 0
             then m1\<lparr>max_drawdown := min (max_drawdown m1) ((equity - me) / me)\<rparr>
             else m1)"

definition update_drawdown :: "real \<Rightarrow> world \<Rightarrow> world" where
  "update_drawdown equity w =
     (let a = metrics_ref (state w)
      in save (w\<lparr>metrics_at := (metrics_at w)(a := drawdown_step equity (metrics_at w a))\<rparr>))"

text \<open>
  \<open>symbol_in_cooldown\<close> reads the clock too (\<open>now\<close>). The test
  \<open>"last_loss_at" not in info\<close> is outside the \<open>try\<close> block; on the boolean \<open>True\<close> it
  raises \<open>TypeError\<close>. \<open>total_seconds()\<close> is the elapsed microseconds over a million.
\<close>

definition symbol_in_cooldown :: "string \<Rightarrow> int \<Rightarrow> int \<Rightarrow> world \<Rightarrow> error + bool" where
  "symbol_in_cooldown symbol cooldown_minutes now w =
     (case map_of (cur_ledger w) symbol of
        None \<Rightarrow> Inr False
      | Some (Marker b) \<Rightarrow> if \<not> b then Inr False else Inl TypeError
      | Some (Info d) \<Rightarrow>
          if d = [] then Inr False
          else
            (case map_of d ''last_loss_at'' of
               None \<Rightarrow> Inr False
             | Some Garbled \<Rightarrow> Inr False
             | Some (Iso ts) \<Rightarrow>
                 Inr (real_of_int (now - ts) / 1000000
                        < real_of_int (cooldown_minutes * 60))))"

section \<open>Bars and moving averages\<close>

text \<open>
  A row of the bar data frame; \<open>time\<close> is the value of its index. The frame is the
  list of its rows, oldest first.
\<close>

record bar =
  time :: int
  open_price :: real
  high :: real
  low :: real
  close :: real
  volume :: real

text \<open>
  \<open>Series.ewm(span=span, adjust=False).mean()\<close>: the first value seeds the average,
  and each later value \<open>x\<close> moves it to \<open>(1 - alpha) * y + alpha * x\<close> with
  \<open>alpha = 2 / (span + 1)\<close>.
\<close>

fun ewm_from :: "real \<Rightarrow> real \<Rightarrow> real list \<Rightarrow> real list" where
  "ewm_from alpha y [] = []"
| "ewm_from alpha y (x # xs) =
     (let y' = (1 - alpha) * y + alpha * x in y' # ewm_from alpha y' xs)"

definition ewm_mean :: "nat \<Rightarrow> real list \<Rightarrow> real list" where
  "ewm_mean span_bars xs =
     (case xs of
        [] \<Rightarrow> []
      | x # rest \<Rightarrow> x # ewm_from (2 / (real span_bars + 1)) x rest)"

section \<open>strategy.py\<close>

record enriched =
  row :: bar
  ema21 :: real
  ema50 :: real

definition add_trend_columns :: "bar list \<Rightarrow> enriched list" where
  "add_trend_columns bars =
     map (\<lambda>(b, f, s). \<lparr>row = b, ema21 = f, ema50 = s\<rparr>)
       (zip bars (zip (ewm_mean EMA_FAST (map close bars))
                      (ewm_mean EMA_SLOW (map close bars))))"

text \<open>
  \<open>x / y <= c\<close> on numpy floats: a division by zero gives an infinity of the sign of
  \<open>x\<close>, or NaN for \<open>0 / 0\<close>, and no exception.
\<close>

definition np_div_le :: "real \<Rightarrow> real \<Rightarrow> real \<Rightarrow> bool" where
  "np_div_le x y c = (if y = 0 then x < 0 else x / y \<le> c)"

text \<open>\<open>d.get(key)\<close> on a dictionary whose values may be \<open>None\<close>.\<close>

definition dict_get :: "(string \<times> 'a option) list \<Rightarrow> string \<Rightarrow> 'a option" where
  "dict_get d k = (case map_of d k of None \<Rightarrow> None | Some v \<Rightarrow> v)"

definition check_entry_signal ::
  "bar list option \<Rightarrow> real \<Rightarrow> (string \<times> real option) list \<Rightarrow> real option
   \<Rightarrow> bool \<times> real option \<times> string" where
  "check_entry_signal bars benchmark_perf recent_metrics volume_ratio =
     (case bars of
        None \<Rightarrow> (False, None, ''No market data.'')
      | Some bs \<Rightarrow>
          if length bs < EMA_SLOW + 2 then (False, None, ''Not enough candles for EMAs.'')
          else
            let enr = add_trend_columns bs;
                lst = enr ! (length enr - 1);
                prev = enr ! (length enr - 2)
            in if ema21 lst \<le> ema50 lst \<or> close (row lst) \<le> ema50 lst
               then (False, None, ''Trend not strong enough.'')
               else
                 let pullback_ok =
                       np_div_le \<bar>low (row prev) - ema21 prev\<bar> (ema21 prev)
                         PULLBACK_TOLERANCE_PCT;
                     break_confirmation = (close (row lst) > high (row prev))
                 in if \<not> (pullback_ok \<and> break_confirmation)
                    then (False, None, ''No pullback + break confirmation.'')
                    else if (case volume_ratio of None \<Rightarrow> True | Some v \<Rightarrow> v < 12 / 10)
                    then (False, None, ''Volume not above recent average.'')
                    else
                      let day_ret = (case dict_get recent_metrics ''ret_day'' of
                                       None \<Rightarrow> 0 | Some r \<Rightarrow> r)
                      in if day_ret \<le> benchmark_perf
                         then (False, None, ''Fails relative strength vs benchmark.'')
                         else (True, Some (close (row lst)),
                               ''Uptrend (21>50), pullback to 21, break above prior high, RS > benchmark, volume confirmed.''))"

section \<open>The brokerage gateway\<close>

text \<open>
  The Alpaca client is outside the core. The numeric strings of its entities are
  modelled by the numbers \<open>float\<close> reads from them, an absent or empty field by \<open>None\<close>.
\<close>

record position =
  pos_symbol :: string
  qty :: real
  avg_entry_price :: real
  market_value :: real

record order =
  ord_symbol :: string
  side :: string
  filled_at :: "int option"
  filled_avg_price :: "real option"
  limit_price :: "real option"
  stop_price :: "real option"

text \<open>
  The answers of the client during one pass of the loop. \<open>None\<close> (for
  \<open>api_submit_order\<close>: \<open>False\<close>) stands for a call that raises.
\<close>

record gateway =
  api_get_position :: "string \<Rightarrow> position option"
  api_list_positions :: "position list option"
  api_list_orders_all :: "order list option"
  api_list_orders_open :: "order list option"
  api_submit_order :: "string \<Rightarrow> string \<Rightarrow> int \<Rightarrow> bool"
  api_latest_quote :: "string \<Rightarrow> (real \<times> real) option"
  api_bars :: "string \<Rightarrow> bar list option"

section \<open>execution.py\<close>

definition get_position :: "gateway \<Rightarrow> string \<Rightarrow> position option" where
  "get_position api symbol = api_get_position api symbol"

definition has_open_order :: "gateway \<Rightarrow> string \<Rightarrow> bool" where
  "has_open_order api symbol =
     (case api_list_orders_open api of
        None \<Rightarrow> False
      | Some orders \<Rightarrow> list_ex (\<lambda>x. ord_symbol x = symbol) orders)"

text \<open>The loop of \<open>latest_buy_fill\<close> over the orders, newest first.\<close>

fun first_buy_fill :: "string \<Rightarrow> int option \<Rightarrow> order list \<Rightarrow> real option \<times> int option" where
  "first_buy_fill symbol after [] = (None, None)"
| "first_buy_fill symbol after (x # orders) =
     (if ord_symbol x \<noteq> symbol \<or> side x \<noteq> ''buy''
      then first_buy_fill symbol after orders
      else
        (case filled_at x of
           None \<Rightarrow> first_buy_fill symbol after orders
         | Some t \<Rightarrow>
             if (case after of None \<Rightarrow> False | Some a \<Rightarrow> t < a)
             then first_buy_fill symbol after orders
             else
               ((case filled_avg_price x of
                   Some p \<Rightarrow> Some p
                 | None \<Rightarrow>
                     (case limit_price x of
                        Some p \<Rightarrow> Some p
                      | None \<Rightarrow> stop_price x)),
                Some t)))"

definition latest_buy_fill ::
  "gateway \<Rightarrow> string \<Rightarrow> int option \<Rightarrow> real option \<times> int option" where
  "latest_buy_fill api symbol day_start =
     (case api_list_orders_all api of
        None \<Rightarrow> (None, None)
      | Some orders \<Rightarrow> first_buy_fill symbol day_start orders)"

text \<open>Python's \<open>int\<close> on a float truncates towards zero.\<close>

definition py_int :: "real \<Rightarrow> int" where
  "py_int x = (if 0 \<le> x then \<lfloor>x\<rfloor> else \<lceil>x\<rceil>)"

text \<open>The exit tuple: reason, anchor price, exit price, quantity.\<close>

type_synonym exit_info = "string \<times> real \<times> real \<times> int"

text \<open>
  \<open>submit_market_sell\<close> followed by the \<open>return\<close> of the exit tuple. The result pairs
  the sell orders placed, as symbol and quantity, with the value returned.
\<close>

definition sell_and_report ::
  "gateway \<Rightarrow> string \<Rightarrow> int \<Rightarrow> string \<Rightarrow> real \<Rightarrow> real
   \<Rightarrow> error + ((string \<times> int) list \<times> exit_info option)" where
  "sell_and_report api symbol q reason anchor_price last_price =
     (if api_submit_order api symbol ''sell'' q
      then Inr ([(symbol, q)], Some (reason, anchor_price, last_price, q))
      else Inl APIError)"

text \<open>\<open>filled_price or entry_price\<close>: \<open>None\<close> and 0.0 are false.\<close>

definition anchor_or :: "real option \<Rightarrow> real \<Rightarrow> real" where
  "anchor_or filled_price entry_price =
     (case filled_price of
        None \<Rightarrow> entry_price
      | Some p \<Rightarrow> if p \<noteq> 0 then p else entry_price)"

text \<open>
  The highest high of the bars at or after the entry time, of all bars when there is
  none. The entry time is \<open>filled_at or bars.index[0]\<close>.
\<close>

definition highest_since :: "int option \<Rightarrow> bar list \<Rightarrow> real" where
  "highest_since filled_time bars =
     (let entry_time = (case filled_time of None \<Rightarrow> time (hd bars) | Some t \<Rightarrow> t);
          recent = filter (\<lambda>b. time b \<ge> entry_time) bars;
          recent = (if recent = [] then bars else recent)
      in fold max (map high (tl recent)) (high (hd recent)))"

definition manage_open_position ::
  "gateway \<Rightarrow> string \<Rightarrow> bar list \<Rightarrow> int option
   \<Rightarrow> error + ((string \<times> int) list \<times> exit_info option)" where
  "manage_open_position api symbol bars day_start =
     (case get_position api symbol of
        None \<Rightarrow> Inr ([], None)
      | Some position \<Rightarrow>
          (case rev bars of
             [] \<Rightarrow> Inl IndexError
           | last_bar # _ \<Rightarrow>
               let entry_price = avg_entry_price position;
                   last_price = close last_bar;
                   (filled_price, filled_time) = latest_buy_fill api symbol day_start;
                   anchor_price = anchor_or filled_price entry_price;
                   highest_since_entry = highest_since filled_time bars;
                   stop = calculate_stop_price anchor_price;
                   trailing_price = trailing_stop_price anchor_price highest_since_entry;
                   q = \<bar>py_int (qty position)\<bar>
               in if last_price \<le> stop
                  then sell_and_report api symbol q ''stop'' anchor_price last_price
                  else if (case trailing_price of
                             None \<Rightarrow> False
                           | Some tp \<Rightarrow> tp \<noteq> 0 \<and> last_price \<le> tp)
                  then sell_and_report api symbol q ''trail'' anchor_price last_price
                  else if last (ewm_mean 21 (map close bars))
                            < last (ewm_mean 50 (map close bars))
                  then sell_and_report api symbol q ''trend_flip'' anchor_price last_price
                  else Inr ([], None)))"

section \<open>data.py: the guards the loop calls\<close>

definition MAX_SPREAD_PCT :: real where "MAX_SPREAD_PCT = 15 / 10000"
definition MAX_SPREAD_ABS :: real where "MAX_SPREAD_ABS = 5 / 100"

text \<open>\<open>fetch_recent_bars\<close>: \<open>None\<close> for an empty frame and for a call that raises.\<close>

definition fetch_recent_bars :: "gateway \<Rightarrow> string \<Rightarrow> bar list option" where
  "fetch_recent_bars api symbol =
     (case api_bars api symbol of
        None \<Rightarrow> None
      | Some bars \<Rightarrow> if bars = [] then None else Some bars)"

definition latest_spread_ok :: "gateway \<Rightarrow> string \<Rightarrow> bool" where
  "latest_spread_ok api symbol =
     (case api_latest_quote api symbol of
        None \<Rightarrow> False
      | Some (bid, ask) \<Rightarrow>
          if bid \<le> 0 \<or> ask \<le> 0 \<or> ask < bid then False
          else ask - bid \<le> MAX_SPREAD_ABS \<and> (ask - bid) / bid \<le> MAX_SPREAD_PCT)"

definition bar_meets_dollar_volume :: "bar list \<Rightarrow> bool" where
  "bar_meets_dollar_volume bars =
     (case rev bars of
        [] \<Rightarrow> False
      | last_bar # _ \<Rightarrow> close last_bar * volume last_bar \<ge> MIN_BAR_DOLLAR_VOL)"

section \<open>main.py: the two loops of \<open>trading_loop\<close> over positions and candidates\<close>

text \<open>An entry of the ranked universe.\<close>

record candidate =
  cand_symbol :: string
  score :: real
  cand_bars :: "bar list"
  ret_day :: "real option"
  ret_1h :: "real option"
  ret_3h :: "real option"
  vol_ratio :: "real option"

text \<open>
  What the two loops read and write: the local variable \<open>qty\<close> of \<open>trading_loop\<close>
  (\<open>None\<close> while no assignment has bound it), the bot state, and the buy orders placed.
  A local variable of \<open>trading_loop\<close> keeps its value from one pass of \<open>while True\<close>
  to the next.
\<close>

record loop_vars =
  local_qty :: "int option"
  bot :: world
  buys :: "(string \<times> int) list"

text \<open>
  Lines 124 to 133: the loop over the open positions. The clock read by
  \<open>update_metrics\<close> is \<open>now\<close>.
\<close>

fun manage_positions ::
  "gateway \<Rightarrow> int option \<Rightarrow> int \<Rightarrow> position list \<Rightarrow> loop_vars \<Rightarrow> error + loop_vars" where
  "manage_positions api day_start now [] lv = Inr lv"
| "manage_positions api day_start now (pos # rest) lv =
     (case fetch_recent_bars api (pos_symbol pos) of
        None \<Rightarrow> manage_positions api day_start now rest lv
      | Some bars \<Rightarrow>
          (case manage_open_position api (pos_symbol pos) bars day_start of
             Inl e \<Rightarrow> Inl e
           | Inr (sells, None) \<Rightarrow> manage_positions api day_start now rest lv
           | Inr (sells, Some (reason, entry_px, exit_px, q)) \<Rightarrow>
               manage_positions api day_start now rest
                 (lv\<lparr>local_qty := Some q,
                     bot := update_metrics (pos_symbol pos)
                              ((exit_px - entry_px) * of_int q) entry_px exit_px now
                              (bot lv)\<rparr>)))"

text \<open>
  Lines 171 to 236: the body of the loop over the candidates. A \<open>continue\<close> returns the
  variables as they are. Line 214 reads \<open>qty\<close> before line 219 assigns it.
\<close>

definition evaluate_candidate ::
  "gateway \<Rightarrow> real \<Rightarrow> real \<Rightarrow> int \<Rightarrow> candidate \<Rightarrow> loop_vars \<Rightarrow> error + loop_vars" where
  "evaluate_candidate api equity benchmark_perf now c lv =
     (let symbol = cand_symbol c in
      if has_traded_symbol symbol (bot lv) then Inr lv
      else if get_position api symbol \<noteq> None then Inr lv
      else
        (case symbol_in_cooldown symbol SYMBOL_COOLDOWN_MIN now (bot lv) of
           Inl e \<Rightarrow> Inl e
         | Inr True \<Rightarrow> Inr lv
         | Inr False \<Rightarrow>
             let bars = cand_bars c;
                 recent = [(''ret_day'', ret_day c), (''ret_1h'', ret_1h c),
                           (''ret_3h'', ret_3h c)];
                 (signal, entry, reason) =
                    check_entry_signal (Some bars) benchmark_perf recent (vol_ratio c)
             in (case entry of
                   None \<Rightarrow> Inr lv
                 | Some entry_price \<Rightarrow>
                     if \<not> signal then Inr lv
                     else if \<not> bar_meets_dollar_volume bars then Inr lv
                     else if \<not> latest_spread_ok api symbol then Inr lv
                     else if has_open_order api symbol then Inr lv
                     else
                       let positions = (case api_list_positions api of
                                          None \<Rightarrow> [] | Some ps \<Rightarrow> ps);
                           current_exposure = sum_list (map market_value positions)
                       in (case local_qty lv of
                             None \<Rightarrow> Inl UnboundLocalError
                           | Some q0 \<Rightarrow>
                               let prospective_value = of_int q0 * entry_price
                               in if current_exposure + prospective_value
                                       > equity * MAX_TOTAL_EXPOSURE_PCT
                                  then Inr lv
                                  else
                                    let q = calculate_position_size equity entry_price False
                                    in if q \<le> 0 then Inr (lv\<lparr>local_qty := Some q\<rparr>)
                                       else if api_submit_order api symbol ''buy'' q
                                       then Inr (lv\<lparr>local_qty := Some q,
                                                    bot := record_symbol_trade symbol
                                                             (record_trade (bot lv)),
                                                    buys := buys lv @ [(symbol, q)]\<rparr>)
                                       else Inr (lv\<lparr>local_qty := Some q\<rparr>)))))"

fun evaluate_candidates ::
  "gateway \<Rightarrow> real \<Rightarrow> real \<Rightarrow> int \<Rightarrow> candidate list \<Rightarrow> loop_vars \<Rightarrow> error + loop_vars" where
  "evaluate_candidates api equity benchmark_perf now [] lv = Inr lv"
| "evaluate_candidates api equity benchmark_perf now (c # cs) lv =
     (case evaluate_candidate api equity benchmark_perf now c lv of
        Inl e \<Rightarrow> Inl e
      | Inr lv' \<Rightarrow> evaluate_candidates api equity benchmark_perf now cs lv')"

text \<open>
  Lines 116 to 236 of one pass: list the positions, manage them, stop when trading is
  halted or the universe is empty, else evaluate the candidates. The benchmark
  performance and the ranked universe of the pass are given.
\<close>

definition trade_pass ::
  "gateway \<Rightarrow> real \<Rightarrow> int option \<Rightarrow> int \<Rightarrow> real \<Rightarrow> candidate list \<Rightarrow> loop_vars
   \<Rightarrow> error + loop_vars" where
  "trade_pass api equity day_start now benchmark_perf universe lv =
     (case api_list_positions api of
        None \<Rightarrow> Inr lv
      | Some positions \<Rightarrow>
          (case manage_positions api day_start now positions lv of
             Inl e \<Rightarrow> Inl e
           | Inr lv1 \<Rightarrow>
               if trading_halted (state (bot lv1)) then Inr lv1
               else if universe = [] then Inr lv1
               else evaluate_candidates api equity benchmark_perf now universe lv1))"

section \<open>Example data\<close>

definition flat_bar :: bar where
  "flat_bar =
     \<lparr>time = 0, open_price = 100, high = 100, low = 100, close = 100, volume = 20000\<rparr>"

text \<open>
  Sixty bars: fifty-eight flat at 100, a pullback bar whose low 100.1 is near the fast
  average, and a bar closing at 102 above the pullback bar's high 101.5.
\<close>

definition breakout_bars :: "bar list" where
  "breakout_bars =
     replicate 58 flat_bar @
     [\<lparr>time = 58, open_price = 100, high = 1015 / 10, low = 1001 / 10, close = 101,
       volume = 20000\<rparr>,
      \<lparr>time = 59, open_price = 101, high = 102, low = 101, close = 102,
       volume = 30000\<rparr>]"

text \<open>
  The entry \<open>build_trending_universe\<close> makes of these bars: the returns over 12 bars,
  36 bars and the day are 2 per cent, the last volume is 1.5 times the mean of the 20
  volumes before it, and the score is the weighted sum of data.py.
\<close>

definition breakout_candidate :: candidate where
  "breakout_candidate =
     \<lparr>cand_symbol = ''AAPL'',
      score = 2 * (4 / 10) + 2 * (35 / 100) + 2 * (25 / 100) + (15 / 10 - 1) * 10
              + ((12132 / 121) / (260402 / 2601) - 1) * 200,
      cand_bars = breakout_bars,
      ret_day = Some (2 / 100), ret_1h = Some (2 / 100), ret_3h = Some (2 / 100),
      vol_ratio = Some (15 / 10)\<rparr>"

text \<open>An account with no position and no order, a tight quote, every order accepted.\<close>

definition idle_gateway :: gateway where
  "idle_gateway =
     \<lparr>api_get_position = (\<lambda>_. None),
      api_list_positions = Some [],
      api_list_orders_all = Some [],
      api_list_orders_open = Some [],
      api_submit_order = (\<lambda>_ _ _. True),
      api_latest_quote = (\<lambda>_. Some (10199 / 100, 102)),
      api_bars = (\<lambda>_. None)\<rparr>"

text \<open>Two bars sliding from 100 to 99.9: the fast average falls below the slow one.\<close>

definition sliding_bars :: "bar list" where
  "sliding_bars =
     [\<lparr>time = 0, open_price = 100, high = 1002 / 10, low = 998 / 10, close = 100,
       volume = 20000\<rparr>,
      \<lparr>time = 1, open_price = 100, high = 1001 / 10, low = 998 / 10, close = 999 / 10,
       volume = 20000\<rparr>]"

text \<open>An account holding 10 shares bought at 100, with no fill on record.\<close>

definition holding_gateway :: gateway where
  "holding_gateway =
     idle_gateway
       \<lparr>api_get_position :=
          (\<lambda>s. if s = ''AAPL''
               then Some \<lparr>pos_symbol = ''AAPL'', qty = 10, avg_entry_price = 100,
                          market_value = 999\<rparr>
               else None)\<rparr>"

text \<open>An account holding 3.7 shares bought at 100, with no fill on record.\<close>

definition fractional_gateway :: gateway where
  "fractional_gateway =
     idle_gateway
       \<lparr>api_get_position :=
          (\<lambda>s. if s = ''AAPL''
               then Some \<lparr>pos_symbol = ''AAPL'', qty = 37 / 10, avg_entry_price = 100,
                          market_value = 36963 / 100\<rparr>
               else None)\<rparr>"

section \<open>Rounding\<close>

lemma round_half_even_lower: "x - 1 / 2 \<le> of_int (round_half_even x)"
  unfolding round_half_even_def Let_def by (auto; linarith)

lemma round_half_even_upper: "of_int (round_half_even x) \<le> x + 1 / 2"
  unfolding round_half_even_def Let_def by (auto; linarith)

lemma round_half_even_ge_floor: "\<lfloor>x\<rfloor> \<le> round_half_even x"
  unfolding round_half_even_def Let_def by auto

lemma round_half_even_le_floor_Suc: "round_half_even x \<le> \<lfloor>x\<rfloor> + 1"
  unfolding round_half_even_def Let_def by auto

lemma round_half_even_mono:
  assumes "x \<le> y"
  shows "round_half_even x \<le> round_half_even y"
proof (cases "\<lfloor>x\<rfloor> = \<lfloor>y\<rfloor>")
  case True
  with assms show ?thesis
    unfolding round_half_even_def Let_def by auto
next
  case False
  have "\<lfloor>x\<rfloor> \<le> \<lfloor>y\<rfloor>" using assms by (rule floor_mono)
  with False have "\<lfloor>x\<rfloor> + 1 \<le> \<lfloor>y\<rfloor>" by simp
  then show ?thesis
    using round_half_even_le_floor_Suc [of x] round_half_even_ge_floor [of y] by linarith
qed

lemma py_round_mono: "x \<le> y \<Longrightarrow> py_round x n \<le> py_round y n"
  unfolding py_round_def
  by (intro divide_right_mono of_int_le_iff [THEN iffD2] round_half_even_mono
      mult_right_mono) simp_all

lemma py_round_4_upper: "py_round x 4 \<le> x + 1 / 20000"
proof -
  have "of_int (round_half_even (x * 10000)) \<le> x * 10000 + 1 / 2"
    by (rule round_half_even_upper)
  then show ?thesis unfolding py_round_def by (simp add: field_simps)
qed

lemma py_round_4_lower: "x - 1 / 20000 \<le> py_round x 4"
proof -
  have "x * 10000 - 1 / 2 \<le> of_int (round_half_even (x * 10000))"
    by (rule round_half_even_lower)
  then show ?thesis unfolding py_round_def by (simp add: field_simps)
qed

lemma py_round_nonpos: "x \<le> 0 \<Longrightarrow> py_round x n \<le> 0"
proof -
  assume "x \<le> 0"
  then have "py_round x n \<le> py_round 0 n" by (rule py_round_mono)
  also have "py_round 0 n = 0" by (simp add: py_round_def round_half_even_def)
  finally show ?thesis .
qed

section \<open>Stop price\<close>

text \<open>
  C7, as amended. \<open>calculate_stop_price\<close> has no guard on its argument: for every entry,
  positive or not, it returns a number, the product \<open>entry * (1 - STOP_LOSS_PCT)\<close> rounded
  to a multiple of one ten-thousandth (within half a ten-thousandth of the product).
  For a positive entry this is the price the specification asks for; for an entry
  \<open>\<le> 0\<close> the result is a number \<open>\<le> 0\<close>, where the specification asks for no price.
\<close>

theorem calculate_stop_price_total:
  "(0 < entry \<longrightarrow> stop_price_spec entry = Some (calculate_stop_price entry))
   \<and> (entry \<le> 0 \<longrightarrow> calculate_stop_price entry \<le> 0)
   \<and> \<bar>calculate_stop_price entry - entry * (1 - STOP_LOSS_PCT)\<bar> \<le> 1 / 20000
   \<and> (\<exists>k::int. calculate_stop_price entry = of_int k / 10000)"
proof (intro conjI impI)
  assume "0 < entry"
  then show "stop_price_spec entry = Some (calculate_stop_price entry)"
    by (simp add: stop_price_spec_def calculate_stop_price_def)
next
  assume "entry \<le> 0"
  then have "entry * (1 - STOP_LOSS_PCT) \<le> 0"
    by (simp add: STOP_LOSS_PCT_def mult_le_0_iff)
  then show "calculate_stop_price entry \<le> 0"
    unfolding calculate_stop_price_def by (rule py_round_nonpos)
next
  show "\<bar>calculate_stop_price entry - entry * (1 - STOP_LOSS_PCT)\<bar> \<le> 1 / 20000"
    using py_round_4_upper [of "entry * (1 - STOP_LOSS_PCT)"]
      py_round_4_lower [of "entry * (1 - STOP_LOSS_PCT)"]
    unfolding calculate_stop_price_def by linarith
next
  show "\<exists>k::int. calculate_stop_price entry = of_int k / 10000"
    unfolding calculate_stop_price_def py_round_def by auto
qed

theorem calculate_stop_price_total_witness:
  "stop_price_spec 100 = Some (993 / 10) \<and> calculate_stop_price 100 = 993 / 10
   \<and> calculate_stop_price (- 100) \<le> 0"
proof -
  have v: "calculate_stop_price 100 = 993 / 10"
    by (simp add: calculate_stop_price_def STOP_LOSS_PCT_def py_round_def
        round_half_even_def Let_def)
  show ?thesis
    using calculate_stop_price_total [of 100] calculate_stop_price_total [of "- 100"] v
    by simp
qed

text \<open>
  The claim C7 as stated fails at entry \<open>- 100\<close>: the source returns the number
  \<open>- 99.3\<close>, the specification's wording gives no price.
\<close>

theorem calculate_stop_price_counterexample:
  "calculate_stop_price (- 100) = - 993 / 10 \<and> stop_price_spec (- 100) = None"
  by (simp add: calculate_stop_price_def stop_price_spec_def STOP_LOSS_PCT_def py_round_def
      round_half_even_def Let_def)

section \<open>Position size\<close>






section \<open>Doubles\<close>






lemma fl64_literal_trigger: "fl64 TRAIL_TRIGGER_PCT = 5764607523034235 / 2 ^ 59"
  by (simp add: TRAIL_TRIGGER_PCT_def fl64_def bin_exp_def compute_bitlen round_half_even_def
      Let_def)

lemma trigger_factor: "fl64 (1 + fl64 TRAIL_TRIGGER_PCT) = 4548635623644201 / 2 ^ 52"
  unfolding fl64_literal_trigger
  by (simp add: fl64_def bin_exp_def compute_bitlen round_half_even_def Let_def)

lemma trigger_level_eq: "trigger_level entry = fl64 (entry * (4548635623644201 / 2 ^ 52))"
  by (simp only: trigger_level_def trigger_factor)


lemma trigger_level_100: "trigger_level 100 = 101"
  unfolding trigger_level_eq
  by (simp add: fl64_def bin_exp_def compute_bitlen round_half_even_def Let_def)



section \<open>Trailing stop\<close>





section \<open>Persisted state\<close>

lemma save_state [simp]: "state (save w) = state w"
  by (simp add: save_def)

lemma save_metrics_at [simp]: "metrics_at (save w) = metrics_at w"
  by (simp add: save_def)

lemma save_ledger_at [simp]: "ledger_at (save w) = ledger_at w"
  by (simp add: save_def)

lemma save_fresh [simp]: "fresh (save w) = fresh w"
  by (simp add: save_def)

lemma cur_metrics_save [simp]: "cur_metrics (save w) = cur_metrics w"
  by (simp add: cur_metrics_def)

lemma cur_ledger_save [simp]: "cur_ledger (save w) = cur_ledger w"
  by (simp add: cur_ledger_def)

lemma load_returns: "writable w \<Longrightarrow> \<exists>w'. load w = Inr w'"
  by (auto simp: load_def write_state_def load_try_def assign_stored_def Let_def
      split: option.split sum.split file_content.split parsed.split)

lemma load_raises: "\<not> writable w \<Longrightarrow> load w = Inl OSError"
  by (auto simp: load_def write_state_def load_try_def assign_stored_def Let_def
      split: option.split sum.split file_content.split parsed.split)

lemma init_without_prior_state:
  assumes "f = None \<or> f = Some Unreadable \<or> f = Some Malformed
           \<or> f = Some (Parsed Ill_Typed) \<or> f = Some (Parsed Inert)"
  shows "BotState_init (module_loaded f) = Inr (save (module_loaded f))"
  using assms
  by (auto simp: BotState_init_def load_def write_state_def load_try_def module_loaded_def)

lemma init_with_object:
  "BotState_init (module_loaded (Some (Parsed (Object s))))
     = Inr (save (assign_stored s (module_loaded (Some (Parsed (Object s))))))"
  by (simp add: BotState_init_def load_def write_state_def load_try_def module_loaded_def
      assign_stored_def Let_def)

lemma assign_stored_fields:
  fixes s f
  defines "w \<equiv> assign_stored s (module_loaded f)"
  shows "trading_day (state w) = (case s_trading_day s of None \<Rightarrow> None | Some v \<Rightarrow> v)"
    and "start_equity (state w) = (case s_start_equity s of None \<Rightarrow> None | Some v \<Rightarrow> v)"
    and "trades_executed (state w) = (case s_trades_executed s of None \<Rightarrow> 0 | Some v \<Rightarrow> v)"
    and "trading_halted (state w) = (case s_trading_halted s of None \<Rightarrow> False | Some v \<Rightarrow> v)"
    and "cur_ledger w = (case s_traded_symbols s of None \<Rightarrow> [] | Some v \<Rightarrow> v)"
    and "cur_metrics w = (case s_metrics s of None \<Rightarrow> zero_metrics | Some v \<Rightarrow> v)"
  unfolding w_def
  by (simp_all add: assign_stored_def module_loaded_def default_copy_def cur_ledger_def
      cur_metrics_def Let_def split: option.split)

text \<open>
  C8, as amended. With a state file that can be written, constructing the \<open>BotState\<close>
  of a freshly imported module returns, whatever the file holds. With no file, an
  unreadable file, unparsable content or a parsed value that is no object, the
  resulting state is the default one: trading day and start equity unset, no trades,
  not halted, an empty ledger and zeroed metrics. With a stored object, each key
  present is taken from it and each key missing keeps its default. In each of these
  cases the state file then holds the resulting state. With a state file that cannot
  be written the construction raises \<open>OSError\<close>, whatever the file holds: the write
  that ends \<open>load\<close> has no handler.
\<close>

theorem load_tolerates_bad_state:
  "(\<exists>w'. BotState_init (module_loaded f) = Inr w'
     \<and> state_file w' = Some (Parsed (Object (snapshot w')))
     \<and> (f = None \<or> f = Some Unreadable \<or> f = Some Malformed
          \<or> f = Some (Parsed Ill_Typed) \<or> f = Some (Parsed Inert) \<longrightarrow>
        trading_day (state w') = None \<and> start_equity (state w') = None
        \<and> trades_executed (state w') = 0 \<and> \<not> trading_halted (state w')
        \<and> cur_ledger w' = [] \<and> cur_metrics w' = zero_metrics)
     \<and> (\<forall>s. f = Some (Parsed (Object s)) \<longrightarrow>
        trading_day (state w') = (case s_trading_day s of None \<Rightarrow> None | Some v \<Rightarrow> v)
        \<and> start_equity (state w') = (case s_start_equity s of None \<Rightarrow> None | Some v \<Rightarrow> v)
        \<and> trades_executed (state w') = (case s_trades_executed s of None \<Rightarrow> 0 | Some v \<Rightarrow> v)
        \<and> trading_halted (state w')
            = (case s_trading_halted s of None \<Rightarrow> False | Some v \<Rightarrow> v)
        \<and> cur_ledger w' = (case s_traded_symbols s of None \<Rightarrow> [] | Some v \<Rightarrow> v)
        \<and> cur_metrics w' = (case s_metrics s of None \<Rightarrow> zero_metrics | Some v \<Rightarrow> v)))
   \<and> BotState_init ((module_loaded f)\<lparr>writable := False\<rparr>) = Inl OSError"
proof
  show "BotState_init ((module_loaded f)\<lparr>writable := False\<rparr>) = Inl OSError"
    unfolding BotState_init_def by (rule load_raises) simp
next
  show "\<exists>w'. BotState_init (module_loaded f) = Inr w'
     \<and> state_file w' = Some (Parsed (Object (snapshot w')))
     \<and> (f = None \<or> f = Some Unreadable \<or> f = Some Malformed
          \<or> f = Some (Parsed Ill_Typed) \<or> f = Some (Parsed Inert) \<longrightarrow>
        trading_day (state w') = None \<and> start_equity (state w') = None
        \<and> trades_executed (state w') = 0 \<and> \<not> trading_halted (state w')
        \<and> cur_ledger w' = [] \<and> cur_metrics w' = zero_metrics)
     \<and> (\<forall>s. f = Some (Parsed (Object s)) \<longrightarrow>
        trading_day (state w') = (case s_trading_day s of None \<Rightarrow> None | Some v \<Rightarrow> v)
        \<and> start_equity (state w') = (case s_start_equity s of None \<Rightarrow> None | Some v \<Rightarrow> v)
        \<and> trades_executed (state w') = (case s_trades_executed s of None \<Rightarrow> 0 | Some v \<Rightarrow> v)
        \<and> trading_halted (state w')
            = (case s_trading_halted s of None \<Rightarrow> False | Some v \<Rightarrow> v)
        \<and> cur_ledger w' = (case s_traded_symbols s of None \<Rightarrow> [] | Some v \<Rightarrow> v)
        \<and> cur_metrics w' = (case s_metrics s of None \<Rightarrow> zero_metrics | Some v \<Rightarrow> v))"
  proof (cases "\<exists>s. f = Some (Parsed (Object s))")
    case True
    then obtain s where f: "f = Some (Parsed (Object s))" by blast
    let ?w = "save (assign_stored s (module_loaded f))"
    have "BotState_init (module_loaded f) = Inr ?w"
      unfolding f by (rule init_with_object)
    moreover have "state_file ?w = Some (Parsed (Object (snapshot ?w)))"
      by (simp add: save_def snapshot_def cur_metrics_def cur_ledger_def)
    ultimately show ?thesis
      using assign_stored_fields [of s f] by (auto simp: f)
  next
    case False
    then have "f = None \<or> f = Some Unreadable \<or> f = Some Malformed
               \<or> f = Some (Parsed Ill_Typed) \<or> f = Some (Parsed Inert)"
    proof (cases f)
      case None
      then show ?thesis by simp
    next
      case (Some c)
      with False show ?thesis
      proof (cases c)
        case (Parsed p)
        with Some False show ?thesis by (cases p) simp_all
      qed simp_all
    qed
    then have i: "BotState_init (module_loaded f) = Inr (save (module_loaded f))"
      by (rule init_without_prior_state)
    let ?w = "save (module_loaded f)"
    have "state_file ?w = Some (Parsed (Object (snapshot ?w)))"
      by (simp add: save_def snapshot_def cur_metrics_def cur_ledger_def)
    moreover have "trading_day (state ?w) = None \<and> start_equity (state ?w) = None
          \<and> trades_executed (state ?w) = 0 \<and> \<not> trading_halted (state ?w)
          \<and> cur_ledger ?w = [] \<and> cur_metrics ?w = zero_metrics"
      by (simp add: module_loaded_def default_copy_def cur_ledger_def cur_metrics_def)
    ultimately show ?thesis
      using i False by auto
  qed
qed

theorem load_tolerates_bad_state_witness:
  "(\<exists>w'. BotState_init (module_loaded (Some Malformed)) = Inr w'
      \<and> trading_day (state w') = None \<and> \<not> trading_halted (state w')
      \<and> cur_metrics w' = zero_metrics)
   \<and> (\<exists>w'. BotState_init (module_loaded (Some (Parsed (Object
            \<lparr>s_trading_day = Some (Some ''2026-01-02''), s_start_equity = Some (Some 1000),
             s_trades_executed = None, s_trading_halted = Some True,
             s_traded_symbols = None, s_metrics = None\<rparr>)))) = Inr w'
      \<and> trading_day (state w') = Some ''2026-01-02'' \<and> start_equity (state w') = Some 1000
      \<and> trades_executed (state w') = 0 \<and> trading_halted (state w')
      \<and> cur_ledger w' = [] \<and> cur_metrics w' = zero_metrics)
   \<and> BotState_init ((module_loaded (Some Malformed))\<lparr>writable := False\<rparr>) = Inl OSError"
proof (intro conjI)
  show "\<exists>w'. BotState_init (module_loaded (Some Malformed)) = Inr w'
      \<and> trading_day (state w') = None \<and> \<not> trading_halted (state w')
      \<and> cur_metrics w' = zero_metrics"
    using load_tolerates_bad_state [of "Some Malformed"] by auto
next
  show "BotState_init ((module_loaded (Some Malformed))\<lparr>writable := False\<rparr>) = Inl OSError"
    using load_tolerates_bad_state [of "Some Malformed"] by blast
next
  let ?s = "\<lparr>s_trading_day = Some (Some ''2026-01-02''), s_start_equity = Some (Some 1000),
             s_trades_executed = None, s_trading_halted = Some True,
             s_traded_symbols = None, s_metrics = None\<rparr>"
  obtain w' where w: "BotState_init (module_loaded (Some (Parsed (Object ?s)))) = Inr w'"
    and a: "\<forall>s. Some (Parsed (Object ?s)) = Some (Parsed (Object s)) \<longrightarrow>
        trading_day (state w') = (case s_trading_day s of None \<Rightarrow> None | Some v \<Rightarrow> v)
        \<and> start_equity (state w') = (case s_start_equity s of None \<Rightarrow> None | Some v \<Rightarrow> v)
        \<and> trades_executed (state w') = (case s_trades_executed s of None \<Rightarrow> 0 | Some v \<Rightarrow> v)
        \<and> trading_halted (state w')
            = (case s_trading_halted s of None \<Rightarrow> False | Some v \<Rightarrow> v)
        \<and> cur_ledger w' = (case s_traded_symbols s of None \<Rightarrow> [] | Some v \<Rightarrow> v)
        \<and> cur_metrics w' = (case s_metrics s of None \<Rightarrow> zero_metrics | Some v \<Rightarrow> v)"
    using load_tolerates_bad_state [of "Some (Parsed (Object ?s))"] by blast
  from a [rule_format, of ?s] w
  show "\<exists>w'. BotState_init (module_loaded (Some (Parsed (Object ?s)))) = Inr w'
      \<and> trading_day (state w') = Some ''2026-01-02'' \<and> start_equity (state w') = Some 1000
      \<and> trades_executed (state w') = 0 \<and> trading_halted (state w')
      \<and> cur_ledger w' = [] \<and> cur_metrics w' = zero_metrics"
    by simp
qed

text \<open>
  The claim C8 as stated fails for a state file that can be neither read nor written,
  a directory for instance: the \<open>except\<close> branch resets the state, and the write that
  follows raises \<open>OSError\<close> out of \<open>BotState()\<close>.
\<close>

theorem load_counterexample:
  "BotState_init ((module_loaded (Some Unreadable))\<lparr>writable := False\<rparr>) = Inl OSError"
  by (simp add: BotState_init_def load_def load_try_def write_state_def module_loaded_def)

section \<open>Trade metrics\<close>

lemma update_metrics_state [simp]:
  "state (update_metrics symbol pnl entry exit now w) = state w"
  by (simp add: update_metrics_def Let_def)

lemma update_metrics_win:
  assumes "0 \<le> pnl"
  shows "cur_metrics (update_metrics symbol pnl entry exit now w)
           = (cur_metrics w)
               \<lparr>total_trades := total_trades (cur_metrics w) + 1,
                wins := wins (cur_metrics w) + 1,
                gross_profit := gross_profit (cur_metrics w) + pnl,
                pnl_by_symbol :=
                  AList.update symbol
                    ((case map_of (pnl_by_symbol (cur_metrics w)) symbol of
                        None \<Rightarrow> 0 | Some v \<Rightarrow> v) + pnl)
                    (pnl_by_symbol (cur_metrics w))\<rparr>"
    and "ledger_at (update_metrics symbol pnl entry exit now w) = ledger_at w"
  using assms by (simp_all add: update_metrics_def cur_metrics_def Let_def)

lemma update_metrics_loss:
  assumes "pnl < 0"
  shows "map_of (cur_ledger (update_metrics symbol pnl entry exit now w)) symbol
           = Some (Info [(''last_loss_at'', Iso now)])"
    and "losses (cur_metrics (update_metrics symbol pnl entry exit now w))
           = losses (cur_metrics w) + 1"
    and "wins (cur_metrics (update_metrics symbol pnl entry exit now w))
           = wins (cur_metrics w)"
  using assms
  by (simp_all add: update_metrics_def cur_metrics_def cur_ledger_def Let_def
      update_conv')

text \<open>
  C10. A trade with profit and loss 0 counts as a win: \<open>wins\<close> goes up by one, \<open>losses\<close>,
  \<open>gross_loss\<close> and \<open>gross_profit\<close> keep their values, and no ledger dictionary changes,
  so no loss timestamp is written. For every profit and loss \<open>\<ge> 0\<close> the ledgers stay as
  they are; a strictly negative one writes the loss timestamp of the symbol.
\<close>

theorem update_metrics_zero_pnl_is_win:
  "wins (cur_metrics (update_metrics symbol 0 entry exit now w)) = wins (cur_metrics w) + 1
   \<and> losses (cur_metrics (update_metrics symbol 0 entry exit now w)) = losses (cur_metrics w)
   \<and> gross_loss (cur_metrics (update_metrics symbol 0 entry exit now w))
       = gross_loss (cur_metrics w)
   \<and> gross_profit (cur_metrics (update_metrics symbol 0 entry exit now w))
       = gross_profit (cur_metrics w)
   \<and> total_trades (cur_metrics (update_metrics symbol 0 entry exit now w))
       = total_trades (cur_metrics w) + 1
   \<and> ledger_at (update_metrics symbol 0 entry exit now w) = ledger_at w
   \<and> (0 \<le> pnl \<longrightarrow> ledger_at (update_metrics symbol pnl entry exit now w) = ledger_at w)
   \<and> (pnl < 0 \<longrightarrow>
        map_of (cur_ledger (update_metrics symbol pnl entry exit now w)) symbol
          = Some (Info [(''last_loss_at'', Iso now)]))"
  using update_metrics_win [of 0 symbol entry exit now w]
    update_metrics_win(2) [of pnl symbol entry exit now w]
    update_metrics_loss(1) [of pnl symbol entry exit now w]
  by simp

theorem update_metrics_zero_pnl_is_win_witness:
  "ledger_at (update_metrics ''AAPL'' 5 100 101 0 (module_loaded None))
     = ledger_at (module_loaded None)
   \<and> map_of (cur_ledger (update_metrics ''AAPL'' (- 5) 100 99 7 (module_loaded None))) ''AAPL''
       = Some (Info [(''last_loss_at'', Iso 7)])
   \<and> wins (cur_metrics (update_metrics ''AAPL'' 0 100 100 0 (module_loaded None))) = 1"
  using update_metrics_zero_pnl_is_win [of "''AAPL''" 100 101 0 "module_loaded None" 5]
    update_metrics_zero_pnl_is_win [of "''AAPL''" 100 99 7 "module_loaded None" "- 5"]
    update_metrics_zero_pnl_is_win [of "''AAPL''" 100 100 0 "module_loaded None" 0]
  by (simp add: module_loaded_def cur_metrics_def zero_metrics_def default_copy_def)

section \<open>Drawdown and the daily reset\<close>

lemma update_drawdown_state [simp]: "state (update_drawdown equity w) = state w"
  by (simp add: update_drawdown_def Let_def)

lemma update_drawdown_at:
  "metrics_at (update_drawdown equity w)
     = (metrics_at w)
         (metrics_ref (state w) := drawdown_step equity (metrics_at w (metrics_ref (state w))))"
  by (simp add: update_drawdown_def Let_def)

lemma drawdown_step_non_increasing: "max_drawdown (drawdown_step equity m) \<le> max_drawdown m"
  by (simp add: drawdown_step_def Let_def split: option.split)

lemma update_drawdown_non_increasing:
  "max_drawdown (cur_metrics (update_drawdown equity w)) \<le> max_drawdown (cur_metrics w)"
  by (simp add: cur_metrics_def update_drawdown_at drawdown_step_non_increasing)

lemma update_drawdown_nonpos:
  "max_drawdown (cur_metrics w) \<le> 0 \<Longrightarrow>
   max_drawdown (cur_metrics (update_drawdown equity w)) \<le> 0"
  using update_drawdown_non_increasing [of equity w] by linarith

lemma reset_for_day_same_day:
  "trading_day (state w) = Some today \<Longrightarrow> reset_for_day today start_eq w = w"
  by (simp add: reset_for_day_def)

lemma reset_for_day_new_day:
  "trading_day (state w) \<noteq> Some today \<Longrightarrow>
   cur_metrics (reset_for_day today start_eq w) = metrics_at w 0"
  by (simp add: reset_for_day_def cur_metrics_def Let_def)

lemma reset_for_day_unshared:
  assumes "trading_day (state w) \<noteq> Some today" and "metrics_at w 0 = zero_metrics"
  shows "max_drawdown (cur_metrics (reset_for_day today start_eq w)) = 0"
  using assms by (simp add: reset_for_day_new_day zero_metrics_def)

lemma update_drawdown_sequence:
  "max_drawdown (cur_metrics (fold update_drawdown equities w)) \<le> max_drawdown (cur_metrics w)"
proof (induction equities arbitrary: w)
  case Nil
  show ?case by simp
next
  case (Cons e es)
  have "max_drawdown (cur_metrics (fold update_drawdown es (update_drawdown e w)))
          \<le> max_drawdown (cur_metrics (update_drawdown e w))"
    by (rule Cons.IH)
  also have "\<dots> \<le> max_drawdown (cur_metrics w)"
    by (rule update_drawdown_non_increasing)
  finally show ?case by simp
qed

text \<open>
  C4 at the failing input. The state file holds a trading day and a start equity and
  no \<open>metrics\<close> key, so the \<open>BotState\<close> built from it shares its metrics dictionary
  with \<open>DEFAULT_STATE\<close>. Two passes of the loop on that day observe the equities 100 and
  90: the stored drawdown becomes \<open>- 0.1\<close>, written into the shared dictionary. On the
  next day \<open>reset_for_day\<close> copies that dictionary, and the drawdown after the reset is
  \<open>- 0.1\<close>, not 0.
\<close>

theorem reset_for_day_keeps_shared_drawdown:
  "(case BotState_init (module_loaded (Some (Parsed (Object
            \<lparr>s_trading_day = Some (Some ''2026-01-02''), s_start_equity = Some (Some 100),
             s_trades_executed = None, s_trading_halted = None,
             s_traded_symbols = None, s_metrics = None\<rparr>)))) of
      Inl e \<Rightarrow> None
    | Inr w \<Rightarrow>
        (let w1 = reset_for_day ''2026-01-02'' 100 (update_drawdown 100 w);
             w2 = reset_for_day ''2026-01-02'' 90 (update_drawdown 90 w1);
             w3 = reset_for_day ''2026-01-03'' 90 (update_drawdown 90 w2)
         in Some (trading_day (state w2), max_drawdown (cur_metrics w2),
                  trading_day (state w3), max_drawdown (cur_metrics w3))))
   = Some (Some ''2026-01-02'', - 1 / 10, Some ''2026-01-03'', - 1 / 10)"
proof -
  let ?s = "\<lparr>s_trading_day = Some (Some ''2026-01-02''), s_start_equity = Some (Some 100),
             s_trades_executed = None, s_trading_halted = None,
             s_traded_symbols = None, s_metrics = None\<rparr>"
  let ?f = "Some (Parsed (Object ?s))"
  define w where "w = save (assign_stored ?s (module_loaded ?f))"
  have init: "BotState_init (module_loaded ?f) = Inr w"
    unfolding w_def by (rule init_with_object)
  have day0: "trading_day (state w) = Some ''2026-01-02''"
    and ref0: "metrics_ref (state w) = 0"
    and m0: "metrics_at w 0 = zero_metrics"
    by (simp_all add: w_def assign_stored_def module_loaded_def default_copy_def Let_def)
  define u1 where "u1 = update_drawdown 100 w"
  have day1: "trading_day (state u1) = Some ''2026-01-02''"
    and ref1: "metrics_ref (state u1) = 0"
    by (simp_all add: u1_def day0 ref0)
  have m1: "metrics_at u1 0 = zero_metrics\<lparr>max_equity := Some 100\<rparr>"
    by (simp add: u1_def update_drawdown_at ref0 m0 drawdown_step_def zero_metrics_def)
  have w1: "reset_for_day ''2026-01-02'' 100 u1 = u1"
    using day1 by (rule reset_for_day_same_day)
  define u2 where "u2 = update_drawdown 90 u1"
  have day2: "trading_day (state u2) = Some ''2026-01-02''"
    and ref2: "metrics_ref (state u2) = 0"
    by (simp_all add: u2_def day1 ref1)
  have m2: "metrics_at u2 0 = zero_metrics\<lparr>max_equity := Some 100, max_drawdown := - 1 / 10\<rparr>"
    by (simp add: u2_def update_drawdown_at ref1 m1 drawdown_step_def zero_metrics_def)
  have w2: "reset_for_day ''2026-01-02'' 90 u2 = u2"
    using day2 by (rule reset_for_day_same_day)
  define u3 where "u3 = update_drawdown 90 u2"
  have day3: "trading_day (state u3) \<noteq> Some ''2026-01-03''"
    by (simp add: u3_def day2)
  have m3: "metrics_at u3 0 = zero_metrics\<lparr>max_equity := Some 100, max_drawdown := - 1 / 10\<rparr>"
    by (simp add: u3_def update_drawdown_at ref2 m2 drawdown_step_def zero_metrics_def)
  have r3: "cur_metrics (reset_for_day ''2026-01-03'' 90 u3) = metrics_at u3 0"
    using day3 by (rule reset_for_day_new_day)
  have d3: "trading_day (state (reset_for_day ''2026-01-03'' 90 u3)) = Some ''2026-01-03''"
    using day3 by (simp add: reset_for_day_def Let_def)
  have c2: "max_drawdown (cur_metrics u2) = - 1 / 10"
    by (simp add: cur_metrics_def ref2 m2)
  show ?thesis
    unfolding init
    by (simp add: Let_def u1_def [symmetric] w1 u2_def [symmetric] w2 u3_def [symmetric]
        day2 c2 d3 r3 m3)
qed

section \<open>Cooldown\<close>

lemma symbol_in_cooldown_loss_record:
  assumes "map_of (cur_ledger w) symbol = Some (Info [(''last_loss_at'', Iso ts)])"
  shows "symbol_in_cooldown symbol minutes now w
           = Inr (now - ts < minutes * 60 * 1000000)"
proof -
  have "(real_of_int (now - ts) / 1000000 < real_of_int (minutes * 60))
          = (real_of_int (now - ts) < real_of_int (minutes * 60 * 1000000))"
    by (simp add: field_simps)
  also have "\<dots> = (now - ts < minutes * 60 * 1000000)"
    by (rule of_int_less_iff)
  finally show ?thesis
    using assms by (simp add: symbol_in_cooldown_def)
qed

lemma symbol_in_cooldown_no_entry:
  "map_of (cur_ledger w) symbol = None \<Longrightarrow> symbol_in_cooldown symbol minutes now w = Inr False"
  by (simp add: symbol_in_cooldown_def)

text \<open>
  C9 at the failing input. After \<open>record_symbol_trade\<close> the ledger entry of the symbol
  is the boolean \<open>True\<close>: it holds no loss timestamp, and \<open>symbol_in_cooldown\<close> raises
  \<open>TypeError\<close> where the claim has it return false.
\<close>

theorem symbol_in_cooldown_raises_on_marker:
  "(case BotState_init (module_loaded None) of
      Inl e \<Rightarrow> None
    | Inr w \<Rightarrow>
        Some (map_of (cur_ledger (record_symbol_trade ''AAPL'' w)) ''AAPL'',
              symbol_in_cooldown ''AAPL'' 60 0 (record_symbol_trade ''AAPL'' w)))
   = Some (Some (Marker True), Inl TypeError)"
  by (simp add: BotState_init_def load_def write_state_def module_loaded_def default_copy_def
      record_symbol_trade_def symbol_in_cooldown_def cur_ledger_def Let_def)

section \<open>Entry signal\<close>

lemma length_ewm_from [simp]: "length (ewm_from a y xs) = length xs"
  by (induction xs arbitrary: y) (simp_all add: Let_def)

lemma length_ewm_mean [simp]: "length (ewm_mean k xs) = length xs"
  by (simp add: ewm_mean_def split: list.split)

lemma add_trend_columns_length [simp]: "length (add_trend_columns bs) = length bs"
  by (simp add: add_trend_columns_def)

lemma add_trend_columns_nth:
  "i < length bs \<Longrightarrow>
   add_trend_columns bs ! i
     = \<lparr>row = bs ! i, ema21 = ewm_mean 21 (map close bs) ! i,
        ema50 = ewm_mean 50 (map close bs) ! i\<rparr>"
  by (simp add: add_trend_columns_def EMA_FAST_def EMA_SLOW_def)

lemma ewm_from_replicate: "ewm_from a y (replicate n y) = replicate n y"
  by (induction n) (simp_all add: Let_def algebra_simps)

lemma ewm_from_append:
  "ewm_from a y (xs @ ys) = ewm_from a y xs @ ewm_from a (last (y # ewm_from a y xs)) ys"
  by (induction xs arbitrary: y) (simp_all add: Let_def)

lemma ewm_mean_flat_then:
  "ewm_mean k (replicate (Suc n) y @ ys)
     = replicate (Suc n) y @ ewm_from (2 / (real k + 1)) y ys"
  by (simp add: ewm_mean_def ewm_from_append ewm_from_replicate)

lemma breakout_closes: "map close breakout_bars = replicate (Suc 57) 100 @ [101, 102]"
  by (simp add: breakout_bars_def flat_bar_def eval_nat_numeral)

lemma breakout_ema21:
  "ewm_mean 21 (map close breakout_bars) = replicate 58 100 @ [1101 / 11, 12132 / 121]"
  unfolding breakout_closes ewm_mean_flat_then by (simp add: Let_def eval_nat_numeral)

lemma breakout_ema50:
  "ewm_mean 50 (map close breakout_bars) = replicate 58 100 @ [5102 / 51, 260402 / 2601]"
  unfolding breakout_closes ewm_mean_flat_then by (simp add: Let_def eval_nat_numeral)

lemma breakout_signal:
  "check_entry_signal (Some breakout_bars) (1 / 100)
     [(''ret_day'', Some (2 / 100)), (''ret_1h'', Some (2 / 100)), (''ret_3h'', Some (2 / 100))] (Some (15 / 10))
   = (True, Some 102,
      ''Uptrend (21>50), pullback to 21, break above prior high, RS > benchmark, volume confirmed.'')"
proof -
  have n: "length breakout_bars = 60" by (simp add: breakout_bars_def)
  have l: "breakout_bars ! 59 = \<lparr>time = 59, open_price = 101, high = 102, low = 101, close = 102,
       volume = 30000\<rparr>"
    by (simp add: breakout_bars_def nth_append)
  have p: "breakout_bars ! 58 = \<lparr>time = 58, open_price = 100, high = 1015 / 10, low = 1001 / 10, close = 101,
       volume = 20000\<rparr>"
    by (simp add: breakout_bars_def nth_append)
  show ?thesis
    by (simp add: check_entry_signal_def n EMA_SLOW_def Let_def add_trend_columns_nth
      breakout_ema21 breakout_ema50 nth_append l p np_div_le_def PULLBACK_TOLERANCE_PCT_def dict_get_def)
qed

text \<open>
  C6. A true signal is returned only for a series of at least \<open>EMA_SLOW + 2\<close> bars
  whose last fast average (span 21) is above the last slow average (span 50), whose
  last close is above the last slow average, whose previous low lies within
  \<open>PULLBACK_TOLERANCE_PCT\<close> of the previous fast average, as a fraction of that
  average, whose last close is above the previous high, with a volume ratio present
  and at least 1.2, and with the day return of the symbol (0 when the metrics hold
  none) above the benchmark performance. The entry price returned with a true signal
  is the last close.
\<close>

theorem check_entry_signal_only_if:
  assumes "check_entry_signal bars benchmark_perf recent_metrics volume_ratio
             = (True, entry, reason)"
  shows "\<exists>bs. bars = Some bs
     \<and> EMA_SLOW + 2 \<le> length bs
     \<and> ewm_mean 21 (map close bs) ! (length bs - 1) > ewm_mean 50 (map close bs) ! (length bs - 1)
     \<and> close (bs ! (length bs - 1)) > ewm_mean 50 (map close bs) ! (length bs - 1)
     \<and> ewm_mean 21 (map close bs) ! (length bs - 2) \<noteq> 0
     \<and> \<bar>low (bs ! (length bs - 2)) - ewm_mean 21 (map close bs) ! (length bs - 2)\<bar>
          / ewm_mean 21 (map close bs) ! (length bs - 2) \<le> PULLBACK_TOLERANCE_PCT
     \<and> close (bs ! (length bs - 1)) > high (bs ! (length bs - 2))
     \<and> (\<exists>v. volume_ratio = Some v \<and> v \<ge> 12 / 10)
     \<and> (case dict_get recent_metrics ''ret_day'' of None \<Rightarrow> 0 | Some r \<Rightarrow> r) > benchmark_perf
     \<and> entry = Some (close (bs ! (length bs - 1)))"
proof (cases bars)
  case None
  with assms show ?thesis by (simp add: check_entry_signal_def)
next
  case (Some bs)
  from assms Some have len: "\<not> length bs < EMA_SLOW + 2"
    by (auto simp: check_entry_signal_def split: if_splits)
  then have i1: "length bs - Suc 0 < length bs" and i2: "length bs - 2 < length bs"
    by (simp_all add: EMA_SLOW_def)
  note nth = add_trend_columns_nth [OF i1] add_trend_columns_nth [OF i2]
  from assms Some len show ?thesis
    by (simp add: check_entry_signal_def Let_def nth np_div_le_def
        split: if_splits option.splits)
qed


theorem check_entry_signal_only_if_witness:
  "check_entry_signal (Some breakout_bars) (1 / 100)
     [(''ret_day'', Some (2 / 100)), (''ret_1h'', Some (2 / 100)), (''ret_3h'', Some (2 / 100))] (Some (15 / 10))
   = (True, Some 102,
      ''Uptrend (21>50), pullback to 21, break above prior high, RS > benchmark, volume confirmed.'')
   \<and> EMA_SLOW + 2 \<le> length breakout_bars
   \<and> close (breakout_bars ! (length breakout_bars - 1))
       > high (breakout_bars ! (length breakout_bars - 2))
   \<and> Some (102::real) = Some (close (breakout_bars ! (length breakout_bars - 1)))"
  using check_entry_signal_only_if [OF breakout_signal] breakout_signal by simp

section \<open>Exits of an open position\<close>

lemma case_rev_last:
  "bars \<noteq> [] \<Longrightarrow> (case rev bars of [] \<Rightarrow> a | x # xs \<Rightarrow> f x) = f (last bars)"
  by (cases bars rule: rev_cases) simp_all

lemma py_round_nonneg: "0 \<le> x \<Longrightarrow> 0 \<le> py_round x n"
proof -
  assume "0 \<le> x"
  then have "py_round 0 n \<le> py_round x n" by (rule py_round_mono)
  moreover have "py_round 0 n = 0" by (simp add: py_round_def round_half_even_def)
  ultimately show ?thesis by simp
qed

lemma active_trail_stop_nonneg:
  assumes "trailing_stop_price anchor peak = Some tp"
  shows "0 \<le> calculate_stop_price anchor"
proof -
  from assms have "0 < anchor"
    by (auto simp: trailing_stop_price_def split: if_splits)
  then have "0 \<le> anchor * (1 - STOP_LOSS_PCT)" by (simp add: STOP_LOSS_PCT_def)
  then show ?thesis unfolding calculate_stop_price_def by (rule py_round_nonneg)
qed

lemma trail_test:
  assumes "\<not> last_price \<le> calculate_stop_price anchor"
  shows "(case trailing_stop_price anchor peak of None \<Rightarrow> False
          | Some tp \<Rightarrow> tp \<noteq> 0 \<and> last_price \<le> tp)
         = (\<exists>tp. trailing_stop_price anchor peak = Some tp \<and> last_price \<le> tp)"
proof (cases "trailing_stop_price anchor peak")
  case None
  then show ?thesis by simp
next
  case (Some tp)
  from active_trail_stop_nonneg [OF Some] assms have "tp = 0 \<Longrightarrow> \<not> last_price \<le> tp"
    by simp
  with Some show ?thesis by auto
qed

lemma py_int_truncates:
  "of_int \<bar>py_int x\<bar> \<le> \<bar>x\<bar> \<and> \<bar>x\<bar> < of_int \<bar>py_int x\<bar> + 1"
proof (cases "0 \<le> x")
  case True
  then have "0 \<le> \<lfloor>x\<rfloor>" by simp
  with True show ?thesis by (simp add: py_int_def)
next
  case False
  then have "\<lceil>x\<rceil> \<le> 0" by (simp add: ceiling_le_zero)
  with False show ?thesis by (simp add: py_int_def) linarith
qed

lemma sliding_no_trail: "trailing_stop_price 100 (highest_since None sliding_bars) = None"
  by (simp add: trailing_stop_price_def trigger_level_100 highest_since_def sliding_bars_def
      Let_def)

text \<open>
  C3, as amended. For an open position \<open>manage_open_position\<close> reports at most one exit
  and places at most one sell order, chosen in this order: the stop, when the last
  close is at or below the stop price of the anchor; else the trailing stop, when it is
  active and the last close is at or below it; else the trend flip, when the fast
  average is below the slow one; else nothing. In particular a fast average below the
  slow one, with neither stop nor trailing stop hit, sells with reason \<open>trend_flip\<close>,
  and once the broker has taken the order the tuple returned carries the anchor price,
  the last close and the quantity sold. That quantity is the position's quantity cut
  to whole shares, \<open>abs(int(float(position.qty)))\<close>: the full size of a position of
  whole shares, and otherwise the whole number of shares below the size. A sell order
  that the broker rejects raises, and so does an empty bar series (the loop passes
  none).
\<close>

theorem manage_open_position_priority:
  assumes "get_position api symbol = Some p"
  shows "let fill = latest_buy_fill api symbol day_start;
             anchor = anchor_or (fst fill) (avg_entry_price p);
             last_price = close (last bars);
             stop_hit = (last_price \<le> calculate_stop_price anchor);
             trail_hit = (\<exists>tp. trailing_stop_price anchor (highest_since (snd fill) bars) = Some tp
                              \<and> last_price \<le> tp);
             flipped = (last (ewm_mean 21 (map close bars)) < last (ewm_mean 50 (map close bars)));
             q = \<bar>py_int (qty p)\<bar>;
             sold = (\<lambda>reason. Inr ([(symbol, q)], Some (reason, anchor, last_price, q)));
             attempt = (\<lambda>reason. if api_submit_order api symbol ''sell'' q then sold reason
                                 else Inl APIError)
         in (bars = [] \<longrightarrow> manage_open_position api symbol bars day_start = Inl IndexError)
            \<and> (bars \<noteq> [] \<longrightarrow>
                 manage_open_position api symbol bars day_start
                   = (if stop_hit then attempt ''stop''
                      else if trail_hit then attempt ''trail''
                      else if flipped then attempt ''trend_flip''
                      else Inr ([], None)))
            \<and> (bars \<noteq> [] \<and> api_submit_order api symbol ''sell'' q
                 \<and> flipped \<and> \<not> stop_hit \<and> \<not> trail_hit \<longrightarrow>
                 manage_open_position api symbol bars day_start = sold ''trend_flip'')
            \<and> (\<forall>k. qty p = of_int k \<longrightarrow> q = \<bar>k\<bar>)
            \<and> of_int q \<le> \<bar>qty p\<bar> \<and> \<bar>qty p\<bar> < of_int q + 1"
proof -
  obtain fp ft where fill: "latest_buy_fill api symbol day_start = (fp, ft)"
    by (cases "latest_buy_fill api symbol day_start")
  have q: "\<forall>k. qty p = of_int k \<longrightarrow> \<bar>py_int (qty p)\<bar> = \<bar>k\<bar>"
    by (auto simp: py_int_def)
  have t: "of_int \<bar>py_int (qty p)\<bar> \<le> \<bar>qty p\<bar>
           \<and> \<bar>qty p\<bar> < of_int \<bar>py_int (qty p)\<bar> + 1"
    by (rule py_int_truncates)
  have e: "bars = [] \<Longrightarrow> manage_open_position api symbol bars day_start = Inl IndexError"
    using assms by (simp add: manage_open_position_def)
  have n: "bars \<noteq> [] \<Longrightarrow>
        manage_open_position api symbol bars day_start
          = (if close (last bars) \<le> calculate_stop_price (anchor_or fp (avg_entry_price p))
             then sell_and_report api symbol \<bar>py_int (qty p)\<bar> ''stop''
                    (anchor_or fp (avg_entry_price p)) (close (last bars))
             else if (\<exists>tp. trailing_stop_price (anchor_or fp (avg_entry_price p))
                              (highest_since ft bars) = Some tp
                            \<and> close (last bars) \<le> tp)
             then sell_and_report api symbol \<bar>py_int (qty p)\<bar> ''trail''
                    (anchor_or fp (avg_entry_price p)) (close (last bars))
             else if last (ewm_mean 21 (map close bars)) < last (ewm_mean 50 (map close bars))
             then sell_and_report api symbol \<bar>py_int (qty p)\<bar> ''trend_flip''
                    (anchor_or fp (avg_entry_price p)) (close (last bars))
             else Inr ([], None))"
    using assms
    by (simp add: manage_open_position_def case_rev_last fill Let_def trail_test)
  show ?thesis
    unfolding Let_def fill fst_conv snd_conv
    using e n q t by (auto simp: sell_and_report_def)
qed

theorem manage_open_position_priority_witness:
  "get_position holding_gateway ''AAPL''
     = Some \<lparr>pos_symbol = ''AAPL'', qty = 10, avg_entry_price = 100, market_value = 999\<rparr>
   \<and> sliding_bars \<noteq> []
   \<and> api_submit_order holding_gateway ''AAPL'' ''sell'' 10
   \<and> last (ewm_mean 21 (map close sliding_bars)) < last (ewm_mean 50 (map close sliding_bars))
   \<and> manage_open_position holding_gateway ''AAPL'' sliding_bars None
       = Inr ([(''AAPL'', 10)], Some (''trend_flip'', 100, 999 / 10, 10))"
proof -
  let ?p = "\<lparr>pos_symbol = ''AAPL'', qty = 10, avg_entry_price = 100, market_value = 999\<rparr>"
  have p: "get_position holding_gateway ''AAPL'' = Some ?p"
    by (simp add: get_position_def holding_gateway_def)
  have b: "sliding_bars \<noteq> []"
    by (simp add: sliding_bars_def)
  have q: "\<bar>py_int (qty ?p)\<bar> = 10"
    by (simp add: py_int_def)
  have s: "api_submit_order holding_gateway ''AAPL'' ''sell'' 10"
    by (simp add: holding_gateway_def idle_gateway_def)
  have f: "latest_buy_fill holding_gateway ''AAPL'' None = (None, None)"
    by (simp add: latest_buy_fill_def holding_gateway_def idle_gateway_def)
  have e: "last (ewm_mean 21 (map close sliding_bars))
             < last (ewm_mean 50 (map close sliding_bars))"
    by (simp add: sliding_bars_def ewm_mean_def Let_def)
  have st: "calculate_stop_price 100 = 993 / 10"
    by (simp add: calculate_stop_price_def STOP_LOSS_PCT_def py_round_def
        round_half_even_def Let_def)
  have tr: "trailing_stop_price 100 (highest_since None sliding_bars) = None"
    by (rule sliding_no_trail)
  have l: "close (last sliding_bars) = 999 / 10"
    by (simp add: sliding_bars_def)
  from manage_open_position_priority [OF p, of None sliding_bars]
  have "manage_open_position holding_gateway ''AAPL'' sliding_bars None
       = Inr ([(''AAPL'', 10)], Some (''trend_flip'', 100, 999 / 10, 10))"
    by (simp add: f q e st tr l b s anchor_or_def Let_def)
  with p b s e show ?thesis by simp
qed

text \<open>
  The claim C3 as stated fails for a position of 3.7 shares: on a trend flip 3 shares
  are sold and the tuple carries the quantity 3, not the full 3.7.
\<close>

theorem manage_open_position_counterexample:
  "map_option qty (get_position fractional_gateway ''AAPL'') = Some (37 / 10)
   \<and> manage_open_position fractional_gateway ''AAPL'' sliding_bars None
       = Inr ([(''AAPL'', 3)], Some (''trend_flip'', 100, 999 / 10, 3))
   \<and> real_of_int 3 < 37 / 10"
  by (simp add: manage_open_position_def fractional_gateway_def idle_gateway_def
      sliding_bars_def get_position_def latest_buy_fill_def anchor_or_def highest_since_def
      Let_def calculate_stop_price_def trailing_stop_price_def trigger_level_100
      STOP_LOSS_PCT_def py_round_def round_half_even_def py_int_def ewm_mean_def
      sell_and_report_def)

section \<open>The trading loop\<close>

lemma breakout_dollar_volume: "bar_meets_dollar_volume breakout_bars"
  by (simp add: bar_meets_dollar_volume_def breakout_bars_def MIN_BAR_DOLLAR_VOL_def)

lemma idle_spread_ok: "latest_spread_ok idle_gateway symbol"
  by (simp add: latest_spread_ok_def idle_gateway_def MAX_SPREAD_ABS_def MAX_SPREAD_PCT_def)

lemma idle_no_open_order: "\<not> has_open_order idle_gateway symbol"
  by (simp add: has_open_order_def idle_gateway_def)

text \<open>
  Whenever a candidate passes every guard before the exposure cap while \<open>qty\<close> is
  unbound, the pass ends in \<open>UnboundLocalError\<close>.
\<close>

lemma evaluate_candidate_unbound:
  assumes "local_qty lv = None"
    and "\<not> has_traded_symbol (cand_symbol c) (bot lv)"
    and "get_position api (cand_symbol c) = None"
    and "symbol_in_cooldown (cand_symbol c) SYMBOL_COOLDOWN_MIN now (bot lv) = Inr False"
    and "check_entry_signal (Some (cand_bars c)) benchmark_perf
           [(''ret_day'', ret_day c), (''ret_1h'', ret_1h c), (''ret_3h'', ret_3h c)]
           (vol_ratio c) = (True, Some entry_price, reason)"
    and "bar_meets_dollar_volume (cand_bars c)"
    and "latest_spread_ok api (cand_symbol c)"
    and "\<not> has_open_order api (cand_symbol c)"
  shows "evaluate_candidate api equity benchmark_perf now c lv = Inl UnboundLocalError"
  using assms by (simp add: evaluate_candidate_def Let_def)

lemma fresh_ledger_empty:
  "BotState_init (module_loaded None) = Inr w \<Longrightarrow>
   cur_ledger (reset_for_day d e (update_drawdown e' w)) = []"
  by (auto simp: BotState_init_def load_def write_state_def module_loaded_def default_copy_def
      reset_for_day_def cur_ledger_def Let_def)

text \<open>
  With \<open>qty\<close> bound by an earlier pass, the same candidate passes the exposure check
  (made with the earlier value) and 98 shares are bought.
\<close>

lemma bound_qty_places_order:
  "(case BotState_init (module_loaded None) of
      Inl e \<Rightarrow> Inl e
    | Inr w \<Rightarrow>
        map_sum id (\<lambda>lv. (local_qty lv, buys lv))
          (trade_pass idle_gateway 100000 (Some 0) 36000000000 (1 / 100) [breakout_candidate]
             \<lparr>local_qty = Some 10,
              bot = reset_for_day ''2026-01-02'' 100000 (update_drawdown 100000 w),
              buys = []\<rparr>))
   = Inr (Some 98, [(''AAPL'', 98)])"
proof -
  let ?w = "save (module_loaded None)"
  have w: "BotState_init (module_loaded None) = Inr ?w"
    by (rule init_without_prior_state) simp
  have led: "cur_ledger (reset_for_day ''2026-01-02'' 100000 (update_drawdown 100000 ?w)) = []"
    by (rule fresh_ledger_empty [OF w])
  have halt: "\<not> trading_halted
                 (state (reset_for_day ''2026-01-02'' 100000 (update_drawdown 100000 ?w)))"
    by (simp add: reset_for_day_def module_loaded_def default_copy_def Let_def)
  have size: "calculate_position_size 100000 102 False = 98"
    by (simp add: calculate_position_size_def RISK_PER_TRADE_PCT_def STOP_LOSS_PCT_def
        MAX_POSITION_PCT_def Let_def)
  have sig: "check_entry_signal (Some breakout_bars) (1 / 100)
           [(''ret_day'', ret_day breakout_candidate), (''ret_1h'', ret_1h breakout_candidate),
            (''ret_3h'', ret_3h breakout_candidate)]
           (vol_ratio breakout_candidate)
         = (True, Some 102,
            ''Uptrend (21>50), pullback to 21, break above prior high, RS > benchmark, volume confirmed.'')"
    using breakout_signal by (simp add: breakout_candidate_def)
  have c: "cand_symbol breakout_candidate = ''AAPL''" "cand_bars breakout_candidate = breakout_bars"
    by (simp_all add: breakout_candidate_def)
  have g: "api_list_positions idle_gateway = Some []"
    "api_submit_order idle_gateway ''AAPL'' ''buy'' 98"
    "get_position idle_gateway ''AAPL'' = None"
    by (simp_all add: idle_gateway_def get_position_def)
  show ?thesis
    using halt
    by (simp add: w trade_pass_def evaluate_candidate_def Let_def c g sig led size
        has_traded_symbol_def symbol_in_cooldown_def breakout_dollar_volume idle_spread_ok
        idle_no_open_order MAX_TOTAL_EXPOSURE_PCT_def)
qed

text \<open>
  A sell order that the broker rejects also ends the pass: \<open>submit_market_sell\<close> has no
  handler, in \<open>manage_open_position\<close> or in the loop.
\<close>

lemma rejected_sell_raises:
  "manage_positions
     (holding_gateway\<lparr>api_submit_order := (\<lambda>_ _ _. False),
                       api_bars := (\<lambda>_. Some sliding_bars)\<rparr>)
     None 0
     [\<lparr>pos_symbol = ''AAPL'', qty = 10, avg_entry_price = 100, market_value = 999\<rparr>] lv
   = Inl APIError"
  by (simp add: fetch_recent_bars_def manage_open_position_def holding_gateway_def
      idle_gateway_def sliding_bars_def get_position_def latest_buy_fill_def anchor_or_def
      highest_since_def Let_def calculate_stop_price_def trailing_stop_price_def
      trigger_level_100 STOP_LOSS_PCT_def py_round_def round_half_even_def py_int_def
      ewm_mean_def sell_and_report_def)

text \<open>
  C2 at the failing input. In a process that starts with no state file, on a pass with
  no open position, the first candidate that gives an entry signal and passes the
  liquidity, spread and open-order guards reaches line 214, where \<open>qty\<close> is read
  before any assignment: the pass raises \<open>UnboundLocalError\<close>, which no handler of
  \<open>trading_loop\<close> catches.
\<close>

theorem first_candidate_raises:
  "(case BotState_init (module_loaded None) of
      Inl e \<Rightarrow> Inl e
    | Inr w \<Rightarrow>
        trade_pass idle_gateway 100000 (Some 0) 36000000000 (1 / 100) [breakout_candidate]
          \<lparr>local_qty = None,
           bot = reset_for_day ''2026-01-02'' 100000 (update_drawdown 100000 w),
           buys = []\<rparr>)
   = Inl UnboundLocalError"
proof -
  let ?w = "save (module_loaded None)"
  have w: "BotState_init (module_loaded None) = Inr ?w"
    by (rule init_without_prior_state) simp
  let ?lv = "\<lparr>local_qty = None,
           bot = reset_for_day ''2026-01-02'' 100000 (update_drawdown 100000 ?w),
           buys = []\<rparr>"
  have led: "cur_ledger (reset_for_day ''2026-01-02'' 100000 (update_drawdown 100000 ?w)) = []"
    by (rule fresh_ledger_empty [OF w])
  have halt: "\<not> trading_halted
                 (state (reset_for_day ''2026-01-02'' 100000 (update_drawdown 100000 ?w)))"
    by (simp add: reset_for_day_def module_loaded_def default_copy_def Let_def)
  have sig: "check_entry_signal (Some (cand_bars breakout_candidate)) (1 / 100)
           [(''ret_day'', ret_day breakout_candidate), (''ret_1h'', ret_1h breakout_candidate),
            (''ret_3h'', ret_3h breakout_candidate)]
           (vol_ratio breakout_candidate)
         = (True, Some 102,
            ''Uptrend (21>50), pullback to 21, break above prior high, RS > benchmark, volume confirmed.'')"
    using breakout_signal by (simp add: breakout_candidate_def)
  have "evaluate_candidate idle_gateway 100000 (1 / 100) 36000000000 breakout_candidate ?lv
          = Inl UnboundLocalError"
  proof (rule evaluate_candidate_unbound [OF _ _ _ _ sig])
    show "local_qty ?lv = None" by simp
    show "\<not> has_traded_symbol (cand_symbol breakout_candidate) (bot ?lv)"
      by (simp add: has_traded_symbol_def led)
    show "get_position idle_gateway (cand_symbol breakout_candidate) = None"
      by (simp add: get_position_def idle_gateway_def)
    show "symbol_in_cooldown (cand_symbol breakout_candidate) SYMBOL_COOLDOWN_MIN 36000000000
            (bot ?lv) = Inr False"
      by (simp add: symbol_in_cooldown_def led)
    show "bar_meets_dollar_volume (cand_bars breakout_candidate)"
      by (simp add: breakout_candidate_def breakout_dollar_volume)
    show "latest_spread_ok idle_gateway (cand_symbol breakout_candidate)"
      by (rule idle_spread_ok)
    show "\<not> has_open_order idle_gateway (cand_symbol breakout_candidate)"
      by (rule idle_no_open_order)
  qed
  with halt show ?thesis
    by (simp add: w trade_pass_def idle_gateway_def)
qed

end
